theory Spec2Isabelle
  imports Complex_Main
begin

section \<open>Numbers of the notebook\<close>

text \<open>
  The notebook \<^verbatim>\<open>Lane-Emden.ipynb\<close> computes with numpy \<^verbatim>\<open>float64\<close> scalars and arrays.
  A value is either a finite number or one of the three special values that numpy
  produces instead of raising: a division by zero gives an infinity, \<open>0/0\<close> and a negative
  base under a fractional exponent give \<open>nan\<close>. Finite arithmetic is taken exact: rounding
  and overflow are not modelled, and the two zeros of the format are identified (the zero
  of the model is the positive one).
\<close>

datatype fl = Fin real | PInf | NInf | NaN

datatype pyerr = ValueError | IndexError

fun is_fin :: "fl \<Rightarrow> bool" where
  "is_fin (Fin a) = True"
| "is_fin PInf = False"
| "is_fin NInf = False"
| "is_fin NaN = False"

fun fneg :: "fl \<Rightarrow> fl" where
  "fneg (Fin a) = Fin (- a)"
| "fneg PInf = NInf"
| "fneg NInf = PInf"
| "fneg NaN = NaN"

fun fabs :: "fl \<Rightarrow> fl" where
  "fabs (Fin a) = Fin \<bar>a\<bar>"
| "fabs PInf = PInf"
| "fabs NInf = PInf"
| "fabs NaN = NaN"

fun fadd :: "fl \<Rightarrow> fl \<Rightarrow> fl" where
  "fadd (Fin a) (Fin b) = Fin (a + b)"
| "fadd (Fin a) PInf = PInf"
| "fadd (Fin a) NInf = NInf"
| "fadd (Fin a) NaN = NaN"
| "fadd PInf (Fin b) = PInf"
| "fadd PInf PInf = PInf"
| "fadd PInf NInf = NaN"
| "fadd PInf NaN = NaN"
| "fadd NInf (Fin b) = NInf"
| "fadd NInf PInf = NaN"
| "fadd NInf NInf = NInf"
| "fadd NInf NaN = NaN"
| "fadd NaN b = NaN"

definition fsub :: "fl \<Rightarrow> fl \<Rightarrow> fl" where
  "fsub a b = fadd a (fneg b)"

text \<open>The sign of an infinity times a finite factor; \<open>inf * 0\<close> is \<open>nan\<close>.\<close>

definition signed_inf :: "bool \<Rightarrow> real \<Rightarrow> fl" where
  "signed_inf pos a = (if a = 0 then NaN else if (0 < a) = pos then PInf else NInf)"

fun fmul :: "fl \<Rightarrow> fl \<Rightarrow> fl" where
  "fmul (Fin a) (Fin b) = Fin (a * b)"
| "fmul (Fin a) PInf = signed_inf True a"
| "fmul (Fin a) NInf = signed_inf False a"
| "fmul (Fin a) NaN = NaN"
| "fmul PInf (Fin b) = signed_inf True b"
| "fmul PInf PInf = PInf"
| "fmul PInf NInf = NInf"
| "fmul PInf NaN = NaN"
| "fmul NInf (Fin b) = signed_inf False b"
| "fmul NInf PInf = NInf"
| "fmul NInf NInf = PInf"
| "fmul NInf NaN = NaN"
| "fmul NaN b = NaN"

text \<open>
  numpy's true division: a zero divisor raises nothing, the quotient is an infinity with
  the sign of the dividend, or \<open>nan\<close> for \<open>0/0\<close>.
\<close>

fun fdiv :: "fl \<Rightarrow> fl \<Rightarrow> fl" where
  "fdiv (Fin a) (Fin b) =
     (if b = 0 then (if a = 0 then NaN else if 0 < a then PInf else NInf)
      else Fin (a / b))"
| "fdiv (Fin a) PInf = Fin 0"
| "fdiv (Fin a) NInf = Fin 0"
| "fdiv (Fin a) NaN = NaN"
| "fdiv PInf (Fin b) = (if 0 \<le> b then PInf else NInf)"
| "fdiv PInf PInf = NaN"
| "fdiv PInf NInf = NaN"
| "fdiv PInf NaN = NaN"
| "fdiv NInf (Fin b) = (if 0 \<le> b then NInf else PInf)"
| "fdiv NInf PInf = NaN"
| "fdiv NInf NInf = NaN"
| "fdiv NInf NaN = NaN"
| "fdiv NaN b = NaN"

text \<open>The comparison \<^verbatim>\<open>a < b\<close>: false as soon as one side is \<open>nan\<close>.\<close>

fun flt :: "fl \<Rightarrow> fl \<Rightarrow> bool" where
  "flt (Fin a) (Fin b) = (a < b)"
| "flt (Fin a) PInf = True"
| "flt (Fin a) NInf = False"
| "flt (Fin a) NaN = False"
| "flt PInf b = False"
| "flt NInf (Fin b) = True"
| "flt NInf PInf = True"
| "flt NInf NInf = False"
| "flt NInf NaN = False"
| "flt NaN b = False"

definition is_int :: "real \<Rightarrow> bool" where
  "is_int r = (of_int \<lfloor>r\<rfloor> = r)"

definition is_odd :: "real \<Rightarrow> bool" where
  "is_odd r = (is_int r \<and> odd \<lfloor>r\<rfloor>)"

text \<open>
  The power \<^verbatim>\<open>a ** n\<close> of a float64 scalar by the index \<open>n\<close>, a finite Python number:
  \<open>a ** 0\<close> is \<open>1\<close> for every \<open>a\<close>, \<open>nan\<close> included; a negative base under a non-integer
  exponent is \<open>nan\<close>; zero under a negative exponent is an infinity.
\<close>

fun fpow :: "fl \<Rightarrow> real \<Rightarrow> fl" where
  "fpow (Fin a) n =
     (if n = 0 then Fin 1
      else if a = 0 then (if 0 < n then Fin 0 else PInf)
      else if is_int n then Fin (a powi \<lfloor>n\<rfloor>)
      else if a < 0 then NaN
      else Fin (a powr n))"
| "fpow PInf n = (if n = 0 then Fin 1 else if 0 < n then PInf else Fin 0)"
| "fpow NInf n =
     (if n = 0 then Fin 1
      else if n < 0 then Fin 0
      else if is_odd n then NInf else PInf)"
| "fpow NaN n = (if n = 0 then Fin 1 else NaN)"

subsection \<open>State vectors\<close>

text \<open>
  A state vector is the array \<^verbatim>\<open>[y0, y1]\<close>; the operations are numpy's elementwise ones,
  a scalar being broadcast over both components.
\<close>

type_synonym vec = "fl \<times> fl"

definition vadd :: "vec \<Rightarrow> vec \<Rightarrow> vec" where
  "vadd u v = (fadd (fst u) (fst v), fadd (snd u) (snd v))"

definition smul :: "fl \<Rightarrow> vec \<Rightarrow> vec" where
  "smul c v = (fmul c (fst v), fmul c (snd v))"

definition vdivs :: "vec \<Rightarrow> fl \<Rightarrow> vec" where
  "vdivs v c = (fdiv (fst v) c, fdiv (snd v) c)"

definition vdiv :: "vec \<Rightarrow> vec \<Rightarrow> vec" where
  "vdiv u v = (fdiv (fst u) (fst v), fdiv (snd u) (snd v))"

definition vabs :: "vec \<Rightarrow> vec" where
  "vabs v = (fabs (fst v), fabs (snd v))"

text \<open>
  Python's builtin \<^verbatim>\<open>min\<close> over the two entries of an array: it keeps the first entry
  unless the second compares smaller.
\<close>

definition pmin :: "vec \<Rightarrow> fl" where
  "pmin v = (if flt (snd v) (fst v) then snd v else fst v)"

section \<open>The solver\<close>

text \<open>
  \<^verbatim>\<open>def LE(x,y,n): return np.array([y[1], -y[0]**n - 2*y[1]/x])\<close>, on the arguments that
  \<^verbatim>\<open>rk4\<close> and \<^verbatim>\<open>integrate\<close> hand to it: \<open>x\<close> and the entries of \<open>y\<close> are float64 scalars,
  whose division and power raise nothing.
\<close>

definition LE :: "fl \<Rightarrow> vec \<Rightarrow> real \<Rightarrow> vec" where
  "LE x y n = (snd y, fsub (fneg (fpow (fst y) n)) (fdiv (fmul (Fin 2) (snd y)) x))"

text \<open>
  \<^verbatim>\<open>center(h,n)\<close>: the series at the offset \<open>h\<close>. The index \<open>n\<close> is a Python number, so
  \<^verbatim>\<open>n/120\<close>, \<^verbatim>\<open>n/30\<close> and \<^verbatim>\<open>n*(8*n-5)\<close> are computed before they meet a float64.
\<close>

definition center :: "fl \<Rightarrow> real \<Rightarrow> vec" where
  "center h n =
     (let h2 = fpow h 2 in
      (fadd (Fin 1)
         (fmul h2 (fadd (Fin (- 1 / 6))
            (fmul h2 (fsub (Fin (n / 120)) (fdiv (fmul (Fin (n * (8 * n - 5))) h2) (Fin 15120)))))),
       fmul h (fadd (Fin (- 1 / 3))
            (fmul h2 (fsub (Fin (n / 30)) (fdiv (fmul (Fin (n * (8 * n - 5))) h2) (Fin 2520)))))))"

text \<open>
  \<^verbatim>\<open>rk4(t,h,y,f,*args)\<close>: the extra arguments are handed to \<open>f\<close> unchanged.
\<close>

definition rk4 :: "fl \<Rightarrow> fl \<Rightarrow> vec \<Rightarrow> (fl \<Rightarrow> vec \<Rightarrow> 'a \<Rightarrow> vec) \<Rightarrow> 'a \<Rightarrow> vec" where
  "rk4 t h y f args =
     (let h12 = fdiv h (Fin 2);
          t12 = fadd t h12;
          k1 = f t y args;
          k2 = f t12 (vadd y (smul h12 k1)) args;
          k3 = f t12 (vadd y (smul h12 k2)) args;
          k4 = f (fadd t h) (vadd y (smul h k3)) args
      in vadd y (vdivs (smul h (vadd (vadd (vadd k1 (smul (Fin 2) k2)) (smul (Fin 2) k3)) k4)) (Fin 6)))"

subsection \<open>The driver\<close>

text \<open>
  The local variables of \<^verbatim>\<open>integrate\<close> that outlive a pass: the dense arrays \<^verbatim>\<open>x\<close> and
  \<^verbatim>\<open>y\<close>, the stored arrays, the write pointer and the loop variable \<^verbatim>\<open>i\<close> (\<open>0\<close> as long
  as no pass has begun). The scale length \<^verbatim>\<open>H_P\<close> and the step \<^verbatim>\<open>h\<close> are computed afresh
  in each pass from the dense rows at \<open>i - 1\<close>.
\<close>

record st =
  x_arr :: "fl list"
  y_arr :: "vec list"
  x_store :: "fl list"
  y_store :: "vec list"
  str_ptr :: nat
  i_cur :: nat

text \<open>Lines 138 to 146: four zero arrays of \<open>nstps\<close> rows, seeded with the first point.\<close>

definition init :: "real \<Rightarrow> real \<Rightarrow> nat \<Rightarrow> st" where
  "init n h N =
     \<lparr> x_arr = (replicate N (Fin 0))[0 := Fin h],
       y_arr = (replicate N (Fin 0, Fin 0))[0 := center (Fin h) n],
       x_store = (replicate N (Fin 0))[0 := Fin h],
       y_store = (replicate N (Fin 0, Fin 0))[0 := center (Fin h) n],
       str_ptr = 0,
       i_cur = 0 \<rparr>"

text \<open>\<^verbatim>\<open>H_P = abs(y[i-1,:]/LE(x[i-1],y[i-1,:],n))\<close> and \<^verbatim>\<open>h = 0.05*min(H_P)\<close>.\<close>

definition scale_len :: "real \<Rightarrow> st \<Rightarrow> nat \<Rightarrow> vec" where
  "scale_len n s i =
     vabs (vdiv (y_arr s ! (i - 1)) (LE (x_arr s ! (i - 1)) (y_arr s ! (i - 1)) n))"

definition step_size :: "real \<Rightarrow> st \<Rightarrow> nat \<Rightarrow> fl" where
  "step_size n s i = fmul (Fin (5 / 100)) (pmin (scale_len n s i))"

text \<open>
  One pass through the body of the loop, lines 148 to 164. The flag tells whether the
  pass left the loop through \<^verbatim>\<open>break\<close>. On a run the rows \<open>i - 1\<close>, \<open>i\<close> and
  \<open>str_ptr + 1\<close> exist (\<open>str_ptr < i < nstps\<close>, lemma \<open>run_basic\<close> below), so no access
  of the source is out of range.
\<close>

definition body :: "real \<Rightarrow> real \<Rightarrow> real \<Rightarrow> nat \<Rightarrow> st \<Rightarrow> bool \<times> st" where
  "body n prec dx_store i s =
     (let H_P = scale_len n s i;
          h = step_size n s i;
          y_new = rk4 (x_arr s ! (i - 1)) h (y_arr s ! (i - 1)) LE n;
          x_new = fadd (x_arr s ! (i - 1)) h;
          s1 = s\<lparr> y_arr := (y_arr s)[i := y_new], x_arr := (x_arr s)[i := x_new], i_cur := i \<rparr>
      in if flt h (Fin prec) then
           (True, s1\<lparr> str_ptr := str_ptr s + 1,
                      x_store := (x_store s)[str_ptr s + 1 := fadd x_new (fst H_P)],
                      y_store := (y_store s)[str_ptr s + 1 := y_new] \<rparr>)
         else if flt (fadd (x_store s ! str_ptr s) (Fin dx_store)) x_new then
           (False, s1\<lparr> str_ptr := str_ptr s + 1,
                       x_store := (x_store s)[str_ptr s + 1 := x_new],
                       y_store := (y_store s)[str_ptr s + 1 := y_new] \<rparr>)
         else (False, s1))"

text \<open>\<^verbatim>\<open>for i in xrange(1,nstps)\<close>, entered at \<open>i\<close>.\<close>

function loop :: "real \<Rightarrow> nat \<Rightarrow> real \<Rightarrow> real \<Rightarrow> nat \<Rightarrow> st \<Rightarrow> bool \<times> st" where
  "loop n N prec dx_store i s =
     (if i < N then
        (case body n prec dx_store i s of
           (True, s') \<Rightarrow> (True, s')
         | (False, s') \<Rightarrow> loop n N prec dx_store (i + 1) s')
      else (False, s))"
  by pat_completeness auto
termination
  by (relation "measure (\<lambda>(n, N, prec, dx_store, i, s). N - i)") auto

declare loop.simps [simp del]

definition run :: "real \<Rightarrow> real \<Rightarrow> nat \<Rightarrow> real \<Rightarrow> real \<Rightarrow> bool \<times> st" where
  "run n h N prec dx_store = loop n N prec dx_store 1 (init n h N)"

text \<open>
  \<^verbatim>\<open>integrate(n,h,nstps,prec,dx_store)\<close>. A negative \<open>nstps\<close> makes \<^verbatim>\<open>np.zeros\<close> raise
  \<^verbatim>\<open>ValueError\<close>; with \<open>nstps = 0\<close> the arrays are empty and \<^verbatim>\<open>x[0] = h\<close> raises
  \<^verbatim>\<open>IndexError\<close>. The result is the pair of slices \<^verbatim>\<open>[0:str_ptr+1]\<close>.
\<close>

definition integrate :: "real \<Rightarrow> real \<Rightarrow> int \<Rightarrow> real \<Rightarrow> real \<Rightarrow> pyerr + (fl list \<times> vec list)" where
  "integrate n h nstps prec dx_store =
     (if nstps < 0 then Inl ValueError
      else if nstps = 0 then Inl IndexError
      else (let s = snd (run n h (nat nstps) prec dx_store)
            in Inr (take (str_ptr s + 1) (x_store s), take (str_ptr s + 1) (y_store s))))"

section \<open>Predicates on the state of a run\<close>

text \<open>
  The point that pass \<open>i\<close> of the loop computes from the dense rows at \<open>i - 1\<close>, and the
  facts that hold of the local variables at the head of the loop:
  \<^item> \<open>basic\<close>: the four arrays have \<open>nstps\<close> rows, the loop variable is \<open>i - 1\<close>, and the write
    pointer is below \<open>i\<close>;
  \<^item> \<open>dense_ok\<close>: row \<open>k\<close> of the dense arrays is the point computed from row \<open>k - 1\<close>;
  \<^item> \<open>untouched\<close>: the dense rows from \<open>i\<close> on still hold their initial zeros;
  \<^item> \<open>quiet\<close>: no pass before \<open>i\<close> had a step below \<open>prec\<close>;
  \<^item> \<open>spaced\<close>: the first \<open>p + 1\<close> stored samples are more than \<open>dx_store\<close> apart;
  \<^item> \<open>seeded\<close>: the first stored sample is the initial point.
\<close>

definition x_next :: "real \<Rightarrow> st \<Rightarrow> nat \<Rightarrow> fl" where
  "x_next n s i = fadd (x_arr s ! (i - 1)) (step_size n s i)"

definition y_next :: "real \<Rightarrow> st \<Rightarrow> nat \<Rightarrow> vec" where
  "y_next n s i = rk4 (x_arr s ! (i - 1)) (step_size n s i) (y_arr s ! (i - 1)) LE n"

definition basic :: "nat \<Rightarrow> nat \<Rightarrow> st \<Rightarrow> bool" where
  "basic N i s \<longleftrightarrow>
     length (x_arr s) = N \<and> length (y_arr s) = N \<and> length (x_store s) = N \<and>
     length (y_store s) = N \<and> i_cur s + 1 = i \<and> str_ptr s < i \<and> i \<le> max N 1"

definition dense_ok :: "real \<Rightarrow> st \<Rightarrow> nat \<Rightarrow> bool" where
  "dense_ok n s k \<longleftrightarrow> x_arr s ! k = x_next n s k \<and> y_arr s ! k = y_next n s k"

definition untouched :: "nat \<Rightarrow> nat \<Rightarrow> st \<Rightarrow> bool" where
  "untouched N i s \<longleftrightarrow> (\<forall>k. i \<le> k \<and> k < N \<longrightarrow> x_arr s ! k = Fin 0 \<and> y_arr s ! k = (Fin 0, Fin 0))"

definition quiet :: "real \<Rightarrow> real \<Rightarrow> nat \<Rightarrow> st \<Rightarrow> bool" where
  "quiet n prec i s \<longleftrightarrow> (\<forall>k. 1 \<le> k \<and> k < i \<longrightarrow> \<not> flt (step_size n s k) (Fin prec))"

definition spaced :: "real \<Rightarrow> nat \<Rightarrow> st \<Rightarrow> bool" where
  "spaced dx p s \<longleftrightarrow> (\<forall>j. j < p \<longrightarrow> flt (fadd (x_store s ! j) (Fin dx)) (x_store s ! (j + 1)))"

definition seeded :: "real \<Rightarrow> real \<Rightarrow> st \<Rightarrow> bool" where
  "seeded n h s \<longleftrightarrow> x_store s ! 0 = Fin h \<and> y_store s ! 0 = center (Fin h) n"

text \<open>
  Arguments of ordinary size. The power \<^verbatim>\<open>h**2\<close> of the series and the quotients \<^verbatim>\<open>n/120\<close> and
  \<^verbatim>\<open>n/30\<close> are taken on the caller's own numbers, where Python raises when the result
  leaves the range of a float; below this bound it does not.
\<close>

definition ordinary :: "real \<Rightarrow> bool" where
  "ordinary r \<longleftrightarrow> \<bar>r\<bar> \<le> 1000000"

section \<open>The leaf functions\<close>

text \<open>
  At \<open>\<xi> = 0\<close> the function returns an infinity, and with a negative \<open>y0\<close> under the index
  \<open>1/2\<close> it returns \<open>nan\<close>; in neither case is anything raised.
\<close>

theorem LE_no_domain_check_cex:
  "LE (Fin 0) (Fin 1, Fin 1) 0 = (Fin 1, NInf) \<and> LE (Fin 1) (Fin (- 1), Fin 0) (1 / 2) = (Fin 0, NaN)"
  by (simp add: LE_def fsub_def is_int_def)

text \<open>
  Claim C7, as amended. On float64 arguments, as the stepper and the driver supply them,
  \<open>LE\<close> makes no domain check and raises nothing: at \<open>\<xi> = 0\<close> with a finite state its
  second component is an infinity or \<open>nan\<close>, and with \<open>y0 < 0\<close> under a non-integer index
  its second component is \<open>nan\<close>; both come back as ordinary values.
\<close>

theorem LE_no_domain_check:
  "\<not> is_fin (snd (LE (Fin 0) (Fin a, Fin b) n))
   \<and> (c < 0 \<and> \<not> is_int m \<longrightarrow> snd (LE x (Fin c, y1) m) = NaN)"
proof -
  have "\<not> is_fin (fsub p (fdiv (fmul (Fin 2) (Fin b)) (Fin 0)))" for p
    by (cases p) (auto simp: fsub_def)
  moreover have "c < 0 \<and> \<not> is_int m \<longrightarrow> fpow (Fin c) m = NaN"
    by (auto simp: is_int_def)
  ultimately show ?thesis
    by (auto simp: LE_def fsub_def simp del: fpow.simps fmul.simps fdiv.simps)
qed

theorem LE_no_domain_check_witness:
  "(- 4 :: real) < 0 \<and> \<not> is_int (3 / 2) \<and> snd (LE (Fin 7) (Fin (- 4), PInf) (3 / 2)) = NaN
   \<and> \<not> is_fin (snd (LE (Fin 0) (Fin 1, Fin 1) 0))"
  using LE_no_domain_check [where a = 1 and b = 1 and n = 0 and c = "- 4" and m = "3 / 2"
      and x = "Fin 7" and ?y1.0 = PInf]
  by (simp add: is_int_def)

section \<open>The loop\<close>

lemma loop_rule:
  assumes "loop n N prec dx i s = (b, s')"
    and "I i s"
    and brk: "\<And>i s s'. i < N \<Longrightarrow> I i s \<Longrightarrow> body n prec dx i s = (True, s') \<Longrightarrow> Q True s'"
    and cont: "\<And>i s s'. i < N \<Longrightarrow> I i s \<Longrightarrow> body n prec dx i s = (False, s') \<Longrightarrow> I (i + 1) s'"
    and exit: "\<And>i s. \<not> i < N \<Longrightarrow> I i s \<Longrightarrow> Q False s"
  shows "Q b s'"
  using assms(1,2)
proof (induction "N - i" arbitrary: i s)
  case 0
  then have "\<not> i < N" by simp
  with 0 exit show ?case by (simp add: loop.simps [of n N prec dx i s])
next
  case (Suc k)
  then have lt: "i < N" by simp
  obtain c t where bt: "body n prec dx i s = (c, t)" by (cases "body n prec dx i s")
  show ?case
  proof (cases c)
    case True
    with bt lt Suc.prems(1) have "b = True" "s' = t"
      by (simp_all add: loop.simps [of n N prec dx i s])
    with brk [OF lt Suc.prems(2)] bt True show ?thesis by simp
  next
    case False
    with bt lt Suc.prems(1) have l: "loop n N prec dx (i + 1) t = (b, s')"
      by (simp add: loop.simps [of n N prec dx i s])
    have "I (i + 1) t" using cont [OF lt Suc.prems(2)] bt False by simp
    moreover have "k = N - (i + 1)" using Suc.hyps(2) by simp
    ultimately show ?thesis using Suc.hyps(1) l by blast
  qed
qed

lemma body_dense:
  assumes "body n prec dx i s = (b, s')"
  shows "x_arr s' = (x_arr s)[i := x_next n s i]"
    and "y_arr s' = (y_arr s)[i := y_next n s i]"
    and "i_cur s' = i"
    and "b = flt (step_size n s i) (Fin prec)"
  using assms by (auto simp: body_def Let_def x_next_def y_next_def split: if_splits)

lemma body_break:
  assumes "body n prec dx i s = (True, s')"
  shows "str_ptr s' = str_ptr s + 1"
    and "x_store s' = (x_store s)[str_ptr s + 1 := fadd (x_next n s i) (fst (scale_len n s i))]"
    and "y_store s' = (y_store s)[str_ptr s + 1 := y_next n s i]"
  using assms by (auto simp: body_def Let_def x_next_def y_next_def split: if_splits)

lemma body_cont:
  assumes "body n prec dx i s = (False, s')"
  shows "(flt (fadd (x_store s ! str_ptr s) (Fin dx)) (x_next n s i) \<and>
          str_ptr s' = str_ptr s + 1 \<and>
          x_store s' = (x_store s)[str_ptr s + 1 := x_next n s i] \<and>
          y_store s' = (y_store s)[str_ptr s + 1 := y_next n s i])
       \<or> (\<not> flt (fadd (x_store s ! str_ptr s) (Fin dx)) (x_next n s i) \<and>
          str_ptr s' = str_ptr s \<and> x_store s' = x_store s \<and> y_store s' = y_store s)"
  using assms by (auto simp: body_def Let_def x_next_def y_next_def split: if_splits)

lemma basic_init: "basic N 1 (init n h N)"
  by (simp add: basic_def init_def)

lemma body_basic:
  assumes "body n prec dx i s = (b, s')" "basic N i s" "i < N"
  shows "basic N (i + 1) s'"
proof (cases b)
  case True
  with assms(1) have b: "body n prec dx i s = (True, s')" by simp
  show ?thesis
    using body_dense(1,2,3) [OF b] body_break [OF b] assms(2,3) by (simp add: basic_def)
next
  case False
  with assms(1) have b: "body n prec dx i s = (False, s')" by simp
  from body_cont [OF b] show ?thesis
  proof
    assume "flt (fadd (x_store s ! str_ptr s) (Fin dx)) (x_next n s i) \<and>
          str_ptr s' = str_ptr s + 1 \<and>
          x_store s' = (x_store s)[str_ptr s + 1 := x_next n s i] \<and>
          y_store s' = (y_store s)[str_ptr s + 1 := y_next n s i]"
    then show ?thesis
      using body_dense(1,2,3) [OF b] assms(2,3) by (simp add: basic_def)
  next
    assume "\<not> flt (fadd (x_store s ! str_ptr s) (Fin dx)) (x_next n s i) \<and>
          str_ptr s' = str_ptr s \<and> x_store s' = x_store s \<and> y_store s' = y_store s"
    then show ?thesis
      using body_dense(1,2,3) [OF b] assms(2,3) by (simp add: basic_def)
  qed
qed

lemma scale_len_cong:
  "x_arr t ! (k - 1) = x_arr s ! (k - 1) \<Longrightarrow> y_arr t ! (k - 1) = y_arr s ! (k - 1) \<Longrightarrow>
   scale_len n t k = scale_len n s k"
  by (simp add: scale_len_def)

lemma step_size_cong:
  "x_arr t ! (k - 1) = x_arr s ! (k - 1) \<Longrightarrow> y_arr t ! (k - 1) = y_arr s ! (k - 1) \<Longrightarrow>
   step_size n t k = step_size n s k"
  by (simp add: step_size_def scale_len_def)

lemma next_cong:
  assumes "x_arr t ! (k - 1) = x_arr s ! (k - 1)" "y_arr t ! (k - 1) = y_arr s ! (k - 1)"
  shows "x_next n t k = x_next n s k" "y_next n t k = y_next n s k"
  using assms step_size_cong [OF assms, of n] by (simp_all add: x_next_def y_next_def)

text \<open>What a pass leaves untouched: the dense entries below \<open>i\<close>.\<close>

lemma body_frame:
  assumes "body n prec dx i s = (b, s')" "k \<noteq> i"
  shows "x_arr s' ! k = x_arr s ! k" "y_arr s' ! k = y_arr s ! k"
  using body_dense [OF assms(1)] assms(2) by simp_all

lemma body_new:
  assumes "body n prec dx i s = (b, s')" "basic N i s" "i < N"
  shows "x_arr s' ! i = x_next n s i" "y_arr s' ! i = y_next n s i"
  using body_dense [OF assms(1)] assms(2,3) by (simp_all add: basic_def)

lemma body_pre:
  assumes "body n prec dx i s = (b, s')" "1 \<le> k" "k \<le> i"
  shows "scale_len n s' k = scale_len n s k" "step_size n s' k = step_size n s k"
    "x_next n s' k = x_next n s k" "y_next n s' k = y_next n s k"
proof -
  have "k - 1 \<noteq> i" using assms(2,3) by simp
  then have e: "x_arr s' ! (k - 1) = x_arr s ! (k - 1)" "y_arr s' ! (k - 1) = y_arr s ! (k - 1)"
    using body_frame [OF assms(1)] by simp_all
  show "scale_len n s' k = scale_len n s k" by (rule scale_len_cong [OF e])
  show "step_size n s' k = step_size n s k" by (rule step_size_cong [OF e])
  show "x_next n s' k = x_next n s k" by (rule next_cong(1) [OF e])
  show "y_next n s' k = y_next n s k" by (rule next_cong(2) [OF e])
qed

lemma body_dense_ok:
  assumes b: "body n prec dx i s = (b, s')" and bas: "basic N i s" and lt: "i < N"
    and d: "\<forall>k. 1 \<le> k \<and> k < i \<longrightarrow> dense_ok n s k"
  shows "\<forall>k. 1 \<le> k \<and> k < i + 1 \<longrightarrow> dense_ok n s' k"
proof (intro allI impI)
  fix k assume k: "1 \<le> k \<and> k < i + 1"
  show "dense_ok n s' k"
  proof (cases "k = i")
    case True
    then show ?thesis
      using body_new [OF b bas lt] body_pre [OF b, where k = i] k by (simp add: dense_ok_def)
  next
    case False
    with k have ki: "k < i" by simp
    then have "dense_ok n s k" using d k by simp
    then show ?thesis
      using body_frame [OF b, of k] body_pre [OF b, where k = k] k ki by (simp add: dense_ok_def)
  qed
qed

lemma run_dense:
  assumes "run n h N prec dx = (b, s')"
  shows "basic N (i_cur s' + 1) s' \<and> (\<forall>k. 1 \<le> k \<and> k \<le> i_cur s' \<longrightarrow> dense_ok n s' k)"
proof -
  let ?I = "\<lambda>i s. basic N i s \<and> (\<forall>k. 1 \<le> k \<and> k < i \<longrightarrow> dense_ok n s k)"
  let ?Q = "\<lambda>(b::bool) s. basic N (i_cur s + 1) s \<and> (\<forall>k. 1 \<le> k \<and> k \<le> i_cur s \<longrightarrow> dense_ok n s k)"
  have l: "loop n N prec dx 1 (init n h N) = (b, s')" using assms by (simp add: run_def)
  have i0: "?I 1 (init n h N)" using basic_init [of N n h] by simp
  have st: "?I (i + 1) t'" if "i < N" "?I i t" "body n prec dx i t = (c, t')" for i t t' c
    using that body_basic [OF that(3)] body_dense_ok [OF that(3)] by blast
  have q: "?Q c t'" if "?I (i + 1) t'" "i_cur t' = i" for i t' c
    using that by (auto simp: less_Suc_eq_le)
  show ?thesis
  proof (rule loop_rule [where I = ?I and Q = ?Q, OF l i0])
    fix i t t' assume a: "i < N" "?I i t" "body n prec dx i t = (True, t')"
    show "?Q True t'" using q [OF st [OF a]] body_dense(3) [OF a(3)] by simp
  next
    fix i t t' assume a: "i < N" "?I i t" "body n prec dx i t = (False, t')"
    show "?I (i + 1) t'" using st [OF a] .
  next
    fix i t assume a: "\<not> i < N" "?I i t"
    then have "i_cur t + 1 = i" by (simp add: basic_def)
    with a show "?Q False t" by (auto simp: less_Suc_eq_le)
  qed
qed

lemma untouched_init: "untouched N 1 (init n h N)"
  by (simp add: untouched_def init_def)

lemma body_untouched:
  assumes "body n prec dx i s = (b, s')" "untouched N i s"
  shows "untouched N (i + 1) s'"
  using body_frame [OF assms(1)] assms(2) by (simp add: untouched_def)

lemma body_quiet:
  assumes b: "body n prec dx i s = (b, s')" and q: "quiet n prec i s"
  shows "quiet n prec i s'" and "\<not> b \<Longrightarrow> quiet n prec (i + 1) s'"
proof -
  have e: "step_size n s' k = step_size n s k" if "1 \<le> k" "k \<le> i" for k
    using body_pre(2) [OF b that] .
  show "quiet n prec i s'" using q e by (simp add: quiet_def)
  show "quiet n prec (i + 1) s'" if "\<not> b"
    unfolding quiet_def
  proof (intro allI impI)
    fix k assume k: "1 \<le> k \<and> k < i + 1"
    show "\<not> flt (step_size n s' k) (Fin prec)"
    proof (cases "k = i")
      case True
      then show ?thesis using e [of i] k body_dense(4) [OF b] that by simp
    next
      case False
      then show ?thesis using e [of k] k q by (simp add: quiet_def)
    qed
  qed
qed

lemma body_terminal:
  assumes b: "body n prec dx i s = (True, s')" and bas: "basic N i s" and lt: "i < N"
  shows "flt (step_size n s' (i_cur s')) (Fin prec)"
    and "1 \<le> i_cur s'" and "i_cur s' < N" and "1 \<le> str_ptr s'"
    and "x_store s' ! str_ptr s' = fadd (x_arr s' ! i_cur s') (fst (scale_len n s' (i_cur s')))"
    and "y_store s' ! str_ptr s' = y_arr s' ! i_cur s'"
proof -
  have i: "i_cur s' = i" "1 \<le> i" using body_dense(3) [OF b] bas by (simp_all add: basic_def)
  have p: "str_ptr s + 1 < N" using bas lt by (simp add: basic_def)
  have len: "length (x_store s) = N" "length (y_store s) = N" using bas by (simp_all add: basic_def)
  show "flt (step_size n s' (i_cur s')) (Fin prec)"
    using body_dense(4) [OF b] body_pre(2) [OF b, where k = i] i by simp
  show "1 \<le> i_cur s'" "i_cur s' < N" using i lt by simp_all
  show "1 \<le> str_ptr s'" using body_break(1) [OF b] by simp
  show "x_store s' ! str_ptr s' = fadd (x_arr s' ! i_cur s') (fst (scale_len n s' (i_cur s')))"
    using body_break(1,2) [OF b] body_new(1) [OF b bas lt] body_pre(1) [OF b, where k = i] i p len
    by simp
  show "y_store s' ! str_ptr s' = y_arr s' ! i_cur s'"
    using body_break(1,3) [OF b] body_new(2) [OF b bas lt] i p len by simp
qed

lemma run_trigger:
  assumes "run n h N prec dx = (b, s')"
  shows "quiet n prec (i_cur s') s'" and "untouched N (i_cur s' + 1) s'"
    and "b \<Longrightarrow> flt (step_size n s' (i_cur s')) (Fin prec)"
    and "b \<Longrightarrow> 1 \<le> i_cur s' \<and> i_cur s' < N \<and> 1 \<le> str_ptr s'"
    and "b \<Longrightarrow> x_store s' ! str_ptr s' = fadd (x_arr s' ! i_cur s') (fst (scale_len n s' (i_cur s')))"
    and "b \<Longrightarrow> y_store s' ! str_ptr s' = y_arr s' ! i_cur s'"
    and "\<not> b \<Longrightarrow> i_cur s' + 1 = max N 1 \<and> quiet n prec (i_cur s' + 1) s'"
proof -
  let ?I = "\<lambda>i s. basic N i s \<and> quiet n prec i s \<and> untouched N i s"
  let ?Q = "\<lambda>b s. quiet n prec (i_cur s) s \<and> untouched N (i_cur s + 1) s \<and>
     (b \<longrightarrow> flt (step_size n s (i_cur s)) (Fin prec) \<and> 1 \<le> i_cur s \<and> i_cur s < N \<and> 1 \<le> str_ptr s \<and>
        x_store s ! str_ptr s = fadd (x_arr s ! i_cur s) (fst (scale_len n s (i_cur s))) \<and>
        y_store s ! str_ptr s = y_arr s ! i_cur s) \<and>
     (\<not> b \<longrightarrow> i_cur s + 1 = max N 1 \<and> quiet n prec (i_cur s + 1) s)"
  have l: "loop n N prec dx 1 (init n h N) = (b, s')" using assms by (simp add: run_def)
  have i0: "?I 1 (init n h N)"
    using basic_init [of N n h] untouched_init [of N n h] by (simp add: quiet_def)
  have "?Q b s'"
  proof (rule loop_rule [where I = ?I and Q = ?Q, OF l i0])
    fix i t t' assume a: "i < N" "?I i t" "body n prec dx i t = (True, t')"
    have "i_cur t' = i" using body_dense(3) [OF a(3)] .
    then show "?Q True t'"
      using body_terminal [OF a(3) _ a(1)] body_quiet(1) [OF a(3)] body_untouched [OF a(3)] a(2)
      by simp
  next
    fix i t t' assume a: "i < N" "?I i t" "body n prec dx i t = (False, t')"
    show "?I (i + 1) t'"
      using body_basic [OF a(3) _ a(1)] body_quiet(2) [OF a(3)] body_untouched [OF a(3)] a(2)
      by simp
  next
    fix i t assume a: "\<not> i < N" "?I i t"
    then have "i_cur t + 1 = i" "i \<le> max N 1" by (simp_all add: basic_def)
    with a show "?Q False t" by (auto simp: quiet_def)
  qed
  then show "quiet n prec (i_cur s') s'" and "untouched N (i_cur s' + 1) s'"
    and "b \<Longrightarrow> flt (step_size n s' (i_cur s')) (Fin prec)"
    and "b \<Longrightarrow> 1 \<le> i_cur s' \<and> i_cur s' < N \<and> 1 \<le> str_ptr s'"
    and "b \<Longrightarrow> x_store s' ! str_ptr s' = fadd (x_arr s' ! i_cur s') (fst (scale_len n s' (i_cur s')))"
    and "b \<Longrightarrow> y_store s' ! str_ptr s' = y_arr s' ! i_cur s'"
    and "\<not> b \<Longrightarrow> i_cur s' + 1 = max N 1 \<and> quiet n prec (i_cur s' + 1) s'"
    by blast+
qed

subsection \<open>The stored samples\<close>

lemma body_store:
  assumes b: "body n prec dx i s = (b, s')" and bas: "basic N i s" and lt: "i < N"
  shows "(\<not> b \<and> str_ptr s' = str_ptr s \<and> x_store s' = x_store s \<and> y_store s' = y_store s)
    \<or> (str_ptr s' = str_ptr s + 1
        \<and> (\<forall>j\<le>str_ptr s. x_store s' ! j = x_store s ! j \<and> y_store s' ! j = y_store s ! j)
        \<and> x_store s' ! (str_ptr s + 1) =
            (if b then fadd (x_next n s i) (fst (scale_len n s i)) else x_next n s i)
        \<and> y_store s' ! (str_ptr s + 1) = y_next n s i
        \<and> (\<not> b \<longrightarrow> flt (fadd (x_store s ! str_ptr s) (Fin dx)) (x_next n s i)))"
proof -
  have p: "str_ptr s + 1 < length (x_store s)" "str_ptr s + 1 < length (y_store s)"
    using bas lt by (simp_all add: basic_def)
  show ?thesis
  proof (cases b)
    case True
    with b have "body n prec dx i s = (True, s')" by simp
    from body_break [OF this] p True show ?thesis by simp
  next
    case False
    with b have "body n prec dx i s = (False, s')" by simp
    from body_cont [OF this] p False show ?thesis by auto
  qed
qed

lemma seeded_init: "0 < N \<Longrightarrow> seeded n h (init n h N)"
  by (simp add: seeded_def init_def)

lemma body_seeded:
  assumes "body n prec dx i s = (b, s')" "basic N i s" "i < N" "seeded n h s"
  shows "seeded n h s'"
  using body_store [OF assms(1,2,3)] assms(4) by (auto simp: seeded_def)

lemma body_spaced:
  assumes b: "body n prec dx i s = (b, s')" and bas: "basic N i s" and lt: "i < N"
    and sp: "spaced dx (str_ptr s) s"
  shows "spaced dx (str_ptr s' - (if b then 1 else 0)) s'"
  using body_store [OF b bas lt]
proof
  assume "\<not> b \<and> str_ptr s' = str_ptr s \<and> x_store s' = x_store s \<and> y_store s' = y_store s"
  then show ?thesis using sp by (simp add: spaced_def)
next
  assume a: "str_ptr s' = str_ptr s + 1
        \<and> (\<forall>j\<le>str_ptr s. x_store s' ! j = x_store s ! j \<and> y_store s' ! j = y_store s ! j)
        \<and> x_store s' ! (str_ptr s + 1) =
            (if b then fadd (x_next n s i) (fst (scale_len n s i)) else x_next n s i)
        \<and> y_store s' ! (str_ptr s + 1) = y_next n s i
        \<and> (\<not> b \<longrightarrow> flt (fadd (x_store s ! str_ptr s) (Fin dx)) (x_next n s i))"
  have old: "flt (fadd (x_store s' ! j) (Fin dx)) (x_store s' ! (j + 1))" if "j < str_ptr s" for j
    using that a sp by (simp add: spaced_def)
  show ?thesis
  proof (cases b)
    case True
    then show ?thesis using a old by (simp add: spaced_def)
  next
    case False
    have "flt (fadd (x_store s' ! j) (Fin dx)) (x_store s' ! (j + 1))" if "j < str_ptr s + 1" for j
    proof (cases "j = str_ptr s")
      case True
      then show ?thesis using a False by simp
    next
      case False
      then show ?thesis using that old by simp
    qed
    then show ?thesis using a False by (simp add: spaced_def)
  qed
qed

lemma run_store:
  assumes r: "run n h N prec dx = (b, s')" and N: "0 < N"
  shows "seeded n h s'"
    and "spaced dx (str_ptr s' - (if b then 1 else 0)) s'"
proof -
  let ?I = "\<lambda>i s. basic N i s \<and> seeded n h s \<and> spaced dx (str_ptr s) s"
  let ?Q = "\<lambda>b s. seeded n h s \<and> spaced dx (str_ptr s - (if b then 1 else 0)) s"
  have l: "loop n N prec dx 1 (init n h N) = (b, s')" using r by (simp add: run_def)
  have i0: "?I 1 (init n h N)"
    using basic_init [of N n h] seeded_init [OF N] by (simp add: spaced_def init_def)
  have "?Q b s'"
  proof (rule loop_rule [where I = ?I and Q = ?Q, OF l i0])
    fix i t t' assume a: "i < N" "?I i t" "body n prec dx i t = (True, t')"
    have bas: "basic N i t" using a(2) by simp
    have 1: "seeded n h t'" using body_seeded [OF a(3) bas a(1)] a(2) by simp
    have 2: "spaced dx (str_ptr t' - 1) t'" using body_spaced [OF a(3) bas a(1)] a(2) by simp
    show "?Q True t'" using 1 2 by simp
  next
    fix i t t' assume a: "i < N" "?I i t" "body n prec dx i t = (False, t')"
    have bas: "basic N i t" using a(2) by simp
    have 0: "basic N (i + 1) t'" using body_basic [OF a(3) bas a(1)] .
    have 1: "seeded n h t'" using body_seeded [OF a(3) bas a(1)] a(2) by simp
    have 2: "spaced dx (str_ptr t') t'" using body_spaced [OF a(3) bas a(1)] a(2) by simp
    show "?I (i + 1) t'" using 0 1 2 by simp
  next
    fix i t assume a: "\<not> i < N" "?I i t"
    then show "?Q False t" by simp
  qed
  then show "seeded n h s'" and "spaced dx (str_ptr s' - (if b then 1 else 0)) s'" by blast+
qed

text \<open>Row \<open>0\<close> of the dense arrays is written once, before the loop.\<close>

lemma run_first:
  assumes r: "run n h N prec dx = (b, s')" and N: "0 < N"
  shows "x_arr s' ! 0 = Fin h" and "y_arr s' ! 0 = center (Fin h) n"
proof -
  let ?I = "\<lambda>i s. basic N i s \<and> x_arr s ! 0 = Fin h \<and> y_arr s ! 0 = center (Fin h) n"
  let ?Q = "\<lambda>(b::bool) s. x_arr s ! 0 = Fin h \<and> y_arr s ! 0 = center (Fin h) n"
  have l: "loop n N prec dx 1 (init n h N) = (b, s')" using r by (simp add: run_def)
  have i0: "?I 1 (init n h N)"
    using basic_init [of N n h] N by (simp add: init_def)
  have keep: "x_arr t' ! 0 = x_arr t ! 0 \<and> y_arr t' ! 0 = y_arr t ! 0"
    if "body n prec dx i t = (c, t')" "basic N i t" for i t t' c
  proof -
    have "0 \<noteq> i" using that(2) by (simp add: basic_def)
    then show ?thesis using body_frame [OF that(1)] by simp
  qed
  have "?Q b s'"
  proof (rule loop_rule [where I = ?I and Q = ?Q, OF l i0])
    fix i t t' assume a: "i < N" "?I i t" "body n prec dx i t = (True, t')"
    show "?Q True t'" using keep [OF a(3)] a(2) by simp
  next
    fix i t t' assume a: "i < N" "?I i t" "body n prec dx i t = (False, t')"
    have bas: "basic N i t" using a(2) by simp
    show "?I (i + 1) t'" using body_basic [OF a(3) bas a(1)] keep [OF a(3) bas] a(2) by simp
  next
    fix i t assume a: "\<not> i < N" "?I i t"
    then show "?Q False t" by simp
  qed
  then show "x_arr s' ! 0 = Fin h" and "y_arr s' ! 0 = center (Fin h) n" by blast+
qed

subsection \<open>Runs on concrete inputs\<close>

lemma loop_break: "i < N \<Longrightarrow> body n prec dx i s = (True, s') \<Longrightarrow> loop n N prec dx i s = (True, s')"
  by (simp add: loop.simps [of n N prec dx i s])

lemma loop_cont:
  "i < N \<Longrightarrow> body n prec dx i s = (False, s') \<Longrightarrow> loop n N prec dx i s = loop n N prec dx (i + 1) s'"
  by (simp add: loop.simps [of n N prec dx i s])

lemma loop_exit: "\<not> i < N \<Longrightarrow> loop n N prec dx i s = (False, s)"
  by (simp add: loop.simps [of n N prec dx i s])

text \<open>With two rows the loop makes one pass.\<close>

lemma loop_two: "loop n 2 prec dx (Suc 0) s = body n prec dx (Suc 0) s"
proof (cases "body n prec dx (Suc 0) s")
  case (Pair c t)
  show ?thesis
  proof (cases c)
    case True
    with Pair show ?thesis by (simp add: loop_break)
  next
    case False
    with Pair have "loop n 2 prec dx (Suc 0) s = loop n 2 prec dx (Suc 0 + 1) t"
      by (intro loop_cont) simp_all
    then show ?thesis using Pair False by (simp add: loop_exit)
  qed
qed

lemma run_two: "run n h 2 prec dx = body n prec dx (Suc 0) (init n h 2)"
  by (simp add: run_def loop_two)

lemma body_skip:
  assumes "\<not> flt (step_size n s i) (Fin prec)"
    and "\<not> flt (fadd (x_store s ! str_ptr s) (Fin dx)) (x_next n s i)"
  shows "body n prec dx i s =
    (False, s\<lparr> y_arr := (y_arr s)[i := y_next n s i], x_arr := (x_arr s)[i := x_next n s i],
                i_cur := i \<rparr>)"
  using assms by (simp add: body_def Let_def x_next_def y_next_def)

lemmas vec_eval = vadd_def smul_def vdivs_def vdiv_def vabs_def pmin_def fsub_def LE_def is_int_def

text \<open>The index \<open>0\<close> from the offset \<open>12/5\<close>, close to the root \<open>\<surd>6\<close>.\<close>

lemma init_a: "init 0 (12 / 5) 2 =
   \<lparr> x_arr = [Fin (12 / 5), Fin 0], y_arr = [(Fin (1 / 25), Fin (- (4 / 5))), (Fin 0, Fin 0)],
     x_store = [Fin (12 / 5), Fin 0], y_store = [(Fin (1 / 25), Fin (- (4 / 5))), (Fin 0, Fin 0)],
     str_ptr = 0, i_cur = 0 \<rparr>"
  by (simp add: init_def center_def Let_def vec_eval numeral_2_eq_2)

lemma scale_a:
  "x_arr s ! 0 = Fin (12 / 5) \<Longrightarrow> y_arr s ! 0 = (Fin (1 / 25), Fin (- (4 / 5))) \<Longrightarrow>
   scale_len 0 s (Suc 0) = (Fin (1 / 20), Fin (12 / 5))"
  by (simp add: scale_len_def vec_eval)

lemma step_a:
  "x_arr s ! 0 = Fin (12 / 5) \<Longrightarrow> y_arr s ! 0 = (Fin (1 / 25), Fin (- (4 / 5))) \<Longrightarrow>
   step_size 0 s (Suc 0) = Fin (1 / 400)"
  by (simp add: step_size_def scale_a pmin_def)

lemma rk4_a:
  "rk4 (Fin (12 / 5)) (Fin (1 / 400)) (Fin (1 / 25), Fin (- (4 / 5))) LE 0 =
     (Fin (36479 / 960000), Fin (- (961 / 1200)))"
  by (simp add: rk4_def Let_def vec_eval)

lemma run_a: "run 0 (12 / 5) 2 (1 / 100) (1 / 10) =
  (True, \<lparr> x_arr = [Fin (12 / 5), Fin (961 / 400)],
     y_arr = [(Fin (1 / 25), Fin (- (4 / 5))), (Fin (36479 / 960000), Fin (- (961 / 1200)))],
     x_store = [Fin (12 / 5), Fin (981 / 400)],
     y_store = [(Fin (1 / 25), Fin (- (4 / 5))), (Fin (36479 / 960000), Fin (- (961 / 1200)))],
     str_ptr = 1, i_cur = 1 \<rparr>)"
  by (simp add: run_two body_def init_a step_a scale_a rk4_a Let_def)

text \<open>The index \<open>0\<close> from the default offset, with one pass.\<close>

lemma init_b: "init 0 (1 / 1000) 2 =
   \<lparr> x_arr = [Fin (1 / 1000), Fin 0],
     y_arr = [(Fin (5999999 / 6000000), Fin (- (1 / 3000))), (Fin 0, Fin 0)],
     x_store = [Fin (1 / 1000), Fin 0],
     y_store = [(Fin (5999999 / 6000000), Fin (- (1 / 3000))), (Fin 0, Fin 0)],
     str_ptr = 0, i_cur = 0 \<rparr>"
  by (simp add: init_def center_def Let_def vec_eval numeral_2_eq_2)

lemma center_b: "center (Fin (1 / 1000)) 0 = (Fin (5999999 / 6000000), Fin (- (1 / 3000)))"
  by (simp add: center_def Let_def vec_eval power2_eq_square)

lemma scale_b:
  "x_arr s ! 0 = Fin (1 / 1000) \<Longrightarrow> y_arr s ! 0 = (Fin (5999999 / 6000000), Fin (- (1 / 3000))) \<Longrightarrow>
   scale_len 0 s (Suc 0) = (Fin (5999999 / 2000), Fin (1 / 1000))"
  by (simp add: scale_len_def vec_eval)

lemma step_b:
  "x_arr s ! 0 = Fin (1 / 1000) \<Longrightarrow> y_arr s ! 0 = (Fin (5999999 / 6000000), Fin (- (1 / 3000))) \<Longrightarrow>
   step_size 0 s (Suc 0) = Fin (1 / 20000)"
  by (simp add: step_size_def scale_b pmin_def)

lemma rk4_b:
  "rk4 (Fin (1 / 1000)) (Fin (1 / 20000)) (Fin (5999999 / 6000000), Fin (- (1 / 3000))) LE 0 =
     (Fin (799999853 / 800000000), Fin (- (7 / 20000)))"
  by (simp add: rk4_def Let_def vec_eval)

lemma run_b: "run 0 (1 / 1000) 2 (1 / 1000000) (1 / 10) =
  (False, \<lparr> x_arr = [Fin (1 / 1000), Fin (21 / 20000)],
     y_arr = [(Fin (5999999 / 6000000), Fin (- (1 / 3000))),
              (Fin (799999853 / 800000000), Fin (- (7 / 20000)))],
     x_store = [Fin (1 / 1000), Fin 0],
     y_store = [(Fin (5999999 / 6000000), Fin (- (1 / 3000))), (Fin 0, Fin 0)],
     str_ptr = 0, i_cur = 1 \<rparr>)"
  by (simp add: run_two body_def init_b step_b scale_b rk4_b Let_def)

lemma run_d: "run 0 (1 / 1000) 2 (1 / 1000000) (1 / 100000) =
  (False, \<lparr> x_arr = [Fin (1 / 1000), Fin (21 / 20000)],
     y_arr = [(Fin (5999999 / 6000000), Fin (- (1 / 3000))),
              (Fin (799999853 / 800000000), Fin (- (7 / 20000)))],
     x_store = [Fin (1 / 1000), Fin (21 / 20000)],
     y_store = [(Fin (5999999 / 6000000), Fin (- (1 / 3000))),
              (Fin (799999853 / 800000000), Fin (- (7 / 20000)))],
     str_ptr = 1, i_cur = 1 \<rparr>)"
  by (simp add: run_two body_def init_b step_b scale_b rk4_b Let_def)

text \<open>The same pass with a zero \<open>prec\<close> and a negative \<open>dx_store\<close>.\<close>

lemma run_c: "run 0 (1 / 1000) 2 0 (- 1) =
  (False, \<lparr> x_arr = [Fin (1 / 1000), Fin (21 / 20000)],
     y_arr = [(Fin (5999999 / 6000000), Fin (- (1 / 3000))),
              (Fin (799999853 / 800000000), Fin (- (7 / 20000)))],
     x_store = [Fin (1 / 1000), Fin (21 / 20000)],
     y_store = [(Fin (5999999 / 6000000), Fin (- (1 / 3000))),
              (Fin (799999853 / 800000000), Fin (- (7 / 20000)))],
     str_ptr = 1, i_cur = 1 \<rparr>)"
  by (simp add: run_two body_def init_b step_b scale_b rk4_b Let_def)

text \<open>The index \<open>5\<close> from the default offset: only the step size is evaluated.\<close>

lemma init_five: "init 5 (1 / 1000) 2 =
   \<lparr> x_arr = [Fin (1 / 1000), Fin 0],
     y_arr = [(Fin (86399985600003599999 / 86400000000000000000),
               Fin (- (4799997600001 / 14400000000000000))), (Fin 0, Fin 0)],
     x_store = [Fin (1 / 1000), Fin 0],
     y_store = [(Fin (86399985600003599999 / 86400000000000000000),
               Fin (- (4799997600001 / 14400000000000000))), (Fin 0, Fin 0)],
     str_ptr = 0, i_cur = 0 \<rparr>"
  by (simp add: init_def center_def Let_def vec_eval numeral_2_eq_2)

lemma step_five:
  "step_size 5 (init 5 (1 / 1000) 2) (Suc 0) =
     Fin (80244863911868700536340480000000000000000000000000000000000000000000000000000000000000000000000 /
      1604895673340630738543810271258873181795954387881603309847210215723711975027073935359798400017999999)"
  by (simp add: step_size_def scale_len_def init_five vec_eval power_divide)

lemma run_five:
  "run 5 (1 / 1000) 2 (1 / 1000000) (1 / 10) =
     (False, (init 5 (1 / 1000) 2)
        \<lparr> y_arr := (y_arr (init 5 (1 / 1000) 2))[Suc 0 := y_next 5 (init 5 (1 / 1000) 2) (Suc 0)],
          x_arr := (x_arr (init 5 (1 / 1000) 2))[Suc 0 := x_next 5 (init 5 (1 / 1000) 2) (Suc 0)],
          i_cur := Suc 0 \<rparr>)"
  unfolding run_two
  by (rule body_skip) (simp_all add: step_five x_next_def, simp_all add: init_five)

section \<open>Properties of the driver\<close>

lemma integrate_Inr:
  assumes "integrate n h nstps prec dx = Inr (xs, ys)"
  shows "0 < nstps"
    and "xs = take (str_ptr (snd (run n h (nat nstps) prec dx)) + 1) (x_store (snd (run n h (nat nstps) prec dx)))"
    and "ys = take (str_ptr (snd (run n h (nat nstps) prec dx)) + 1) (y_store (snd (run n h (nat nstps) prec dx)))"
  using assms by (auto simp: integrate_def Let_def split: if_splits)

lemma run_basic:
  assumes "run n h N prec dx = (b, s)" "0 < N"
  shows "length (x_store s) = N" "length (y_store s) = N" "str_ptr s < N" "str_ptr s \<le> i_cur s"
    "i_cur s < N" "length (x_arr s) = N" "length (y_arr s) = N"
  using run_dense [OF assms(1)] assms(2) by (auto simp: basic_def)



text \<open>
  With two rows and the default thresholds the single pass has the step \<open>1/20000\<close>, which
  is not below \<open>prec\<close>; the loop runs out and the call returns its one stored point.
\<close>

theorem exhaustion_is_normal_cex:
  "fst (run 0 (1 / 1000) 2 (1 / 1000000) (1 / 10)) = False
   \<and> step_size 0 (init 0 (1 / 1000) 2) 1 = Fin (1 / 20000)
   \<and> integrate 0 (1 / 1000) 2 (1 / 1000000) (1 / 10) =
       Inr ([Fin (1 / 1000)], [(Fin (5999999 / 6000000), Fin (- (1 / 3000)))])"
  by (simp add: integrate_def run_b step_b init_b)

text \<open>
  Claim C1, as amended. Whenever the step size chosen in a pass is below \<open>prec\<close>, that pass
  appends exactly one point to the stored sequence, whose \<open>\<xi>\<close> is the new \<open>x\<close> plus the
  first entry of the scale length taken at the previous point and whose state is the
  newly advanced state, and leaves the loop: no later pass is made. A run that ends this
  way has made exactly the passes up to the first one whose step is below \<open>prec\<close>, its
  last stored point is that terminal point, and the rows after it are untouched. A run
  also ends normally when the loop runs out of passes, then without any step below
  \<open>prec\<close>. The first part is stated for any state with \<open>nstps\<close> rows whose write pointer is
  below the loop variable, as every state of a run is.
\<close>

theorem terminal_test:
  "(1 \<le> i \<and> i < N \<and> str_ptr t < i \<and> length (x_arr t) = N \<and> length (y_arr t) = N
      \<and> length (x_store t) = N \<and> length (y_store t) = N
      \<and> flt (step_size n t i) (Fin prec) \<longrightarrow>
      (let h' = step_size n t i;
           x_new = fadd (x_arr t ! (i - 1)) h';
           y_new = rk4 (x_arr t ! (i - 1)) h' (y_arr t ! (i - 1)) LE n;
           t' = t\<lparr> y_arr := (y_arr t)[i := y_new], x_arr := (x_arr t)[i := x_new], i_cur := i,
                    str_ptr := str_ptr t + 1,
                    x_store := (x_store t)[str_ptr t + 1 := fadd x_new (fst (scale_len n t i))],
                    y_store := (y_store t)[str_ptr t + 1 := y_new] \<rparr>
       in loop n N prec dx_store i t = (True, t')
          \<and> take (str_ptr t' + 1) (x_store t') =
              take (str_ptr t + 1) (x_store t) @ [fadd x_new (fst (scale_len n t i))]
          \<and> take (str_ptr t' + 1) (y_store t') = take (str_ptr t + 1) (y_store t) @ [y_new]))
   \<and> (run n h N prec dx_store = (b, s) \<longrightarrow>
        (b \<longrightarrow> 1 \<le> i_cur s \<and> i_cur s < N
              \<and> flt (step_size n s (i_cur s)) (Fin prec)
              \<and> (\<forall>k. 1 \<le> k \<and> k < i_cur s \<longrightarrow> \<not> flt (step_size n s k) (Fin prec))
              \<and> 1 \<le> str_ptr s
              \<and> x_store s ! str_ptr s = fadd (x_arr s ! i_cur s) (fst (scale_len n s (i_cur s)))
              \<and> y_store s ! str_ptr s = y_arr s ! i_cur s
              \<and> (\<forall>k. i_cur s < k \<and> k < N \<longrightarrow> x_arr s ! k = Fin 0 \<and> y_arr s ! k = (Fin 0, Fin 0)))
        \<and> (\<not> b \<longrightarrow> i_cur s + 1 = max N 1
              \<and> (\<forall>k. 1 \<le> k \<and> k \<le> i_cur s \<longrightarrow> \<not> flt (step_size n s k) (Fin prec))))"
proof (intro conjI impI)
  assume a: "1 \<le> i \<and> i < N \<and> str_ptr t < i \<and> length (x_arr t) = N \<and> length (y_arr t) = N
      \<and> length (x_store t) = N \<and> length (y_store t) = N
      \<and> flt (step_size n t i) (Fin prec)"
  define x_new where "x_new = fadd (x_arr t ! (i - 1)) (step_size n t i)"
  define y_new where "y_new = rk4 (x_arr t ! (i - 1)) (step_size n t i) (y_arr t ! (i - 1)) LE n"
  define t' where "t' = t\<lparr> y_arr := (y_arr t)[i := y_new], x_arr := (x_arr t)[i := x_new],
      i_cur := i, str_ptr := str_ptr t + 1,
      x_store := (x_store t)[str_ptr t + 1 := fadd x_new (fst (scale_len n t i))],
      y_store := (y_store t)[str_ptr t + 1 := y_new] \<rparr>"
  have "body n prec dx_store i t = (True, t')"
    using a by (simp add: body_def Let_def t'_def x_new_def y_new_def)
  then have 1: "loop n N prec dx_store i t = (True, t')"
    using a by (intro loop_break) simp_all
  have p: "str_ptr t + 1 < length (x_store t)" "str_ptr t + 1 < length (y_store t)"
    using a by simp_all
  have 2: "take (str_ptr t' + 1) (x_store t') =
      take (str_ptr t + 1) (x_store t) @ [fadd x_new (fst (scale_len n t i))]"
    using p(1) by (simp add: t'_def take_Suc_conv_app_nth)
  have 3: "take (str_ptr t' + 1) (y_store t') = take (str_ptr t + 1) (y_store t) @ [y_new]"
    using p(2) by (simp add: t'_def take_Suc_conv_app_nth)
  show "let h' = step_size n t i;
           x_new = fadd (x_arr t ! (i - 1)) h';
           y_new = rk4 (x_arr t ! (i - 1)) h' (y_arr t ! (i - 1)) LE n;
           t' = t\<lparr> y_arr := (y_arr t)[i := y_new], x_arr := (x_arr t)[i := x_new], i_cur := i,
                    str_ptr := str_ptr t + 1,
                    x_store := (x_store t)[str_ptr t + 1 := fadd x_new (fst (scale_len n t i))],
                    y_store := (y_store t)[str_ptr t + 1 := y_new] \<rparr>
       in loop n N prec dx_store i t = (True, t')
          \<and> take (str_ptr t' + 1) (x_store t') =
              take (str_ptr t + 1) (x_store t) @ [fadd x_new (fst (scale_len n t i))]
          \<and> take (str_ptr t' + 1) (y_store t') = take (str_ptr t + 1) (y_store t) @ [y_new]"
    using 1 2 3 unfolding Let_def t'_def x_new_def y_new_def by blast
next
  assume r: "run n h N prec dx_store = (b, s)" and b: b
  note t = run_trigger [OF r]
  show "1 \<le> i_cur s" "i_cur s < N" "1 \<le> str_ptr s" using t(4) b by simp_all
  show "flt (step_size n s (i_cur s)) (Fin prec)" using t(3) b by simp
  show "\<forall>k. 1 \<le> k \<and> k < i_cur s \<longrightarrow> \<not> flt (step_size n s k) (Fin prec)"
    using t(1) by (simp add: quiet_def)
  show "x_store s ! str_ptr s = fadd (x_arr s ! i_cur s) (fst (scale_len n s (i_cur s)))"
    using t(5) b by simp
  show "y_store s ! str_ptr s = y_arr s ! i_cur s" using t(6) b by simp
  show "\<forall>k. i_cur s < k \<and> k < N \<longrightarrow> x_arr s ! k = Fin 0 \<and> y_arr s ! k = (Fin 0, Fin 0)"
    using t(2) by (simp add: untouched_def Suc_le_eq)
next
  assume r: "run n h N prec dx_store = (b, s)" and b: "\<not> b"
  note t = run_trigger [OF r]
  show "i_cur s + 1 = max N 1" using t(7) b by simp
  show "\<forall>k. 1 \<le> k \<and> k \<le> i_cur s \<longrightarrow> \<not> flt (step_size n s k) (Fin prec)"
    using t(7) b by (simp add: quiet_def less_Suc_eq_le)
qed

theorem terminal_test_witness:
  "(1::nat) \<le> 1 \<and> (1::nat) < 2
   \<and> flt (step_size 0 \<lparr> x_arr = [Fin (12 / 5), Fin 0],
          y_arr = [(Fin (1 / 25), Fin (- (4 / 5))), (Fin 0, Fin 0)],
          x_store = [Fin (12 / 5), Fin 0],
          y_store = [(Fin (1 / 25), Fin (- (4 / 5))), (Fin 0, Fin 0)],
          str_ptr = 0, i_cur = 0 \<rparr> 1) (Fin (1 / 100))
   \<and> loop 0 2 (1 / 100) (1 / 10) 1
        \<lparr> x_arr = [Fin (12 / 5), Fin 0],
          y_arr = [(Fin (1 / 25), Fin (- (4 / 5))), (Fin 0, Fin 0)],
          x_store = [Fin (12 / 5), Fin 0],
          y_store = [(Fin (1 / 25), Fin (- (4 / 5))), (Fin 0, Fin 0)],
          str_ptr = 0, i_cur = 0 \<rparr> =
       (True, \<lparr> x_arr = [Fin (12 / 5), Fin (961 / 400)],
          y_arr = [(Fin (1 / 25), Fin (- (4 / 5))), (Fin (36479 / 960000), Fin (- (961 / 1200)))],
          x_store = [Fin (12 / 5), Fin (981 / 400)],
          y_store = [(Fin (1 / 25), Fin (- (4 / 5))), (Fin (36479 / 960000), Fin (- (961 / 1200)))],
          str_ptr = 1, i_cur = 1 \<rparr>)
   \<and> fst (run 0 (12 / 5) 2 (1 / 100) (1 / 10)) = True
   \<and> fst (run 0 (1 / 1000) 2 (1 / 1000000) (1 / 10)) = False
   \<and> i_cur (snd (run 0 (1 / 1000) 2 (1 / 1000000) (1 / 10))) + 1 = 2"
  using terminal_test [where i = 1 and N = 2 and n = 0 and prec = "1 / 100" and dx_store = "1 / 10"
      and t = "\<lparr> x_arr = [Fin (12 / 5), Fin 0],
          y_arr = [(Fin (1 / 25), Fin (- (4 / 5))), (Fin 0, Fin 0)],
          x_store = [Fin (12 / 5), Fin 0],
          y_store = [(Fin (1 / 25), Fin (- (4 / 5))), (Fin 0, Fin 0)],
          str_ptr = 0, i_cur = 0 \<rparr>"
      and h = "12 / 5" and b = True and s = "snd (run 0 (12 / 5) 2 (1 / 100) (1 / 10))"]
    terminal_test [where i = 2 and N = 2 and n = 0 and prec = "1 / 1000000" and dx_store = "1 / 10"
      and t = "init 0 (1 / 1000) 2" and h = "1 / 1000" and b = False
      and s = "snd (run 0 (1 / 1000) 2 (1 / 1000000) (1 / 10))"]
  by (simp add: run_a run_b step_a scale_a rk4_a Let_def)

text \<open>
  With the index \<open>5\<close>, two rows and the default thresholds the single pass has a step
  near \<open>1/20000\<close>, not below \<open>prec\<close>; the call returns its one stored point, and nothing is
  raised.
\<close>

theorem exhaustion_returns_cex:
  "fst (run 5 (1 / 1000) 2 (1 / 1000000) (1 / 10)) = False
   \<and> integrate 5 (1 / 1000) 2 (1 / 1000000) (1 / 10) =
       Inr ([Fin (1 / 1000)],
            [(Fin (86399985600003599999 / 86400000000000000000),
              Fin (- (4799997600001 / 14400000000000000)))])"
  by (simp add: integrate_def run_five init_five)

text \<open>
  Claim C2, as amended. On every input on which the loop runs out of passes without a step
  below \<open>prec\<close>, the driver raises nothing: all \<open>nstps - 1\<close> passes were made, and the call
  returns the points stored so far, a non-empty sequence that begins at the initial
  offset. The index plays no part in this; \<open>n = 5\<close> is treated as any other.
\<close>

theorem exhaustion_returns:
  assumes "0 < nstps" and "run n h (nat nstps) prec dx_store = (False, s)"
  shows "integrate n h nstps prec dx_store =
           Inr (take (str_ptr s + 1) (x_store s), take (str_ptr s + 1) (y_store s))
     \<and> i_cur s + 1 = nat nstps
     \<and> (\<forall>k. 1 \<le> k \<and> k < nat nstps \<longrightarrow> \<not> flt (step_size n s k) (Fin prec))
     \<and> length (take (str_ptr s + 1) (x_store s)) = str_ptr s + 1
     \<and> x_store s ! 0 = Fin h"
proof -
  have N: "0 < nat nstps" using assms(1) by simp
  note t = run_trigger(7) [OF assms(2)]
  note bas = run_basic [OF assms(2) N]
  have 1: "integrate n h nstps prec dx_store =
           Inr (take (str_ptr s + 1) (x_store s), take (str_ptr s + 1) (y_store s))"
    using assms by (simp add: integrate_def)
  have 2: "i_cur s + 1 = nat nstps" using t N by simp
  have 3: "\<forall>k. 1 \<le> k \<and> k < nat nstps \<longrightarrow> \<not> flt (step_size n s k) (Fin prec)"
    using t 2 by (simp add: quiet_def)
  have 4: "length (take (str_ptr s + 1) (x_store s)) = str_ptr s + 1" using bas by simp
  have 5: "x_store s ! 0 = Fin h" using run_store(1) [OF assms(2) N] by (simp add: seeded_def)
  show ?thesis using 1 2 3 4 5 by simp
qed

theorem exhaustion_returns_witness:
  "(0::int) < 2
   \<and> run 0 (1 / 1000) (nat 2) (1 / 1000000) (1 / 10) =
       (False, \<lparr> x_arr = [Fin (1 / 1000), Fin (21 / 20000)],
          y_arr = [(Fin (5999999 / 6000000), Fin (- (1 / 3000))),
                   (Fin (799999853 / 800000000), Fin (- (7 / 20000)))],
          x_store = [Fin (1 / 1000), Fin 0],
          y_store = [(Fin (5999999 / 6000000), Fin (- (1 / 3000))), (Fin 0, Fin 0)],
          str_ptr = 0, i_cur = 1 \<rparr>)
   \<and> integrate 0 (1 / 1000) 2 (1 / 1000000) (1 / 10) =
       Inr ([Fin (1 / 1000)], [(Fin (5999999 / 6000000), Fin (- (1 / 3000)))])"
  using exhaustion_returns [where nstps = 2 and n = 0 and h = "1 / 1000" and prec = "1 / 1000000"
      and dx_store = "1 / 10"
      and s = "\<lparr> x_arr = [Fin (1 / 1000), Fin (21 / 20000)],
          y_arr = [(Fin (5999999 / 6000000), Fin (- (1 / 3000))),
                   (Fin (799999853 / 800000000), Fin (- (7 / 20000)))],
          x_store = [Fin (1 / 1000), Fin 0],
          y_store = [(Fin (5999999 / 6000000), Fin (- (1 / 3000))), (Fin 0, Fin 0)],
          str_ptr = 0, i_cur = 1 \<rparr>"]
  by (simp add: run_b)

text \<open>
  A call with a negative index, a negative offset, a zero \<open>prec\<close> and a negative
  \<open>dx_store\<close> is not rejected: it makes its pass and returns.
\<close>

theorem no_validation_cex:
  "\<not> isl (integrate (- 1) (- (1 / 1000)) 2 0 (- 1))
   \<and> i_cur (snd (run (- 1) (- (1 / 1000)) 2 0 (- 1))) = 1"
proof -
  obtain b s where r: "run (- 1) (- (1 / 1000)) 2 0 (- 1) = (b, s)"
    by (cases "run (- 1) (- (1 / 1000)) 2 0 (- 1)")
  have "i_cur s = 1"
    using run_trigger(4) [OF r] run_trigger(7) [OF r] by (cases b) auto
  then show ?thesis using r by (simp add: integrate_def Let_def)
qed

text \<open>
  Claim C8, as amended. A call with a non-positive \<open>h\<close>, \<open>prec\<close> or \<open>dx_store\<close>, or a negative
  \<open>n\<close>, is not rejected. With arguments of ordinary size and between \<open>2\<close> and \<open>10^6\<close> rows
  it seeds the dense and the stored arrays with \<open>h\<close> and \<open>center(h, n)\<close>, makes its first
  pass from that point, with the step size taken from it and one \<open>rk4\<close> step of that size,
  and returns the stored samples, the seed first.
\<close>

theorem no_validation:
  assumes "h \<le> 0 \<or> prec \<le> 0 \<or> dx_store \<le> 0 \<or> n < 0"
    and "ordinary n" and "ordinary h" and "ordinary prec" and "ordinary dx_store"
    and "2 \<le> nstps" and "nstps \<le> 1000000"
    and "run n h (nat nstps) prec dx_store = (b, s)"
  shows "integrate n h nstps prec dx_store =
           Inr (take (str_ptr s + 1) (x_store s), take (str_ptr s + 1) (y_store s))
     \<and> x_arr s ! 0 = Fin h \<and> y_arr s ! 0 = center (Fin h) n
     \<and> x_store s ! 0 = Fin h \<and> y_store s ! 0 = center (Fin h) n
     \<and> 1 \<le> i_cur s
     \<and> step_size n s 1 = fmul (Fin (5 / 100)) (pmin (vabs (vdiv (center (Fin h) n) (LE (Fin h) (center (Fin h) n) n))))
     \<and> x_arr s ! 1 = fadd (Fin h) (step_size n s 1)
     \<and> y_arr s ! 1 = rk4 (Fin h) (step_size n s 1) (center (Fin h) n) LE n
     \<and> hd (fst (projr (integrate n h nstps prec dx_store))) = Fin h
     \<and> hd (snd (projr (integrate n h nstps prec dx_store))) = center (Fin h) n"
proof -
  have N: "0 < nat nstps" "2 \<le> nat nstps" using assms(6) by simp_all
  have 1: "integrate n h nstps prec dx_store =
           Inr (take (str_ptr s + 1) (x_store s), take (str_ptr s + 1) (y_store s))"
    using assms(6,8) by (simp add: integrate_def)
  have 2: "x_arr s ! 0 = Fin h" "y_arr s ! 0 = center (Fin h) n"
    using run_first [OF assms(8) N(1)] by simp_all
  have 3: "x_store s ! 0 = Fin h" "y_store s ! 0 = center (Fin h) n"
    using run_store(1) [OF assms(8) N(1)] by (simp_all add: seeded_def)
  have 4: "1 \<le> i_cur s"
  proof (cases b)
    case True
    then show ?thesis using run_trigger(4) [OF assms(8)] by simp
  next
    case False
    then show ?thesis using run_trigger(7) [OF assms(8)] N(2) by simp
  qed
  have "dense_ok n s 1" using run_dense [OF assms(8)] 4 by simp
  then have 5: "x_arr s ! 1 = fadd (Fin h) (step_size n s 1)"
    and 6: "y_arr s ! 1 = rk4 (Fin h) (step_size n s 1) (center (Fin h) n) LE n"
    using 2 by (simp_all add: dense_ok_def x_next_def y_next_def)
  have 7: "step_size n s 1 =
      fmul (Fin (5 / 100)) (pmin (vabs (vdiv (center (Fin h) n) (LE (Fin h) (center (Fin h) n) n))))"
    using 2 by (simp add: step_size_def scale_len_def)
  have len: "0 < length (x_store s)" "0 < length (y_store s)"
    using run_basic [OF assms(8)] N(1) by (simp_all add: basic_def)
  have 8: "hd (take (str_ptr s + 1) (x_store s)) = Fin h"
    using len(1) 3(1) by (cases "x_store s") simp_all
  have 9: "hd (take (str_ptr s + 1) (y_store s)) = center (Fin h) n"
    using len(2) 3(2) by (cases "y_store s") simp_all
  show ?thesis using 1 2 3 4 5 6 7 8 9 by simp
qed

theorem no_validation_witness:
  "((1 / 1000 :: real) \<le> 0 \<or> (0::real) \<le> 0 \<or> (- 1 :: real) \<le> 0 \<or> (0::real) < 0)
   \<and> ordinary 0 \<and> ordinary (1 / 1000) \<and> ordinary (- 1)
   \<and> (2::int) \<le> 2 \<and> (2::int) \<le> 1000000
   \<and> run 0 (1 / 1000) (nat 2) 0 (- 1) =
       (False, \<lparr> x_arr = [Fin (1 / 1000), Fin (21 / 20000)],
          y_arr = [(Fin (5999999 / 6000000), Fin (- (1 / 3000))),
                   (Fin (799999853 / 800000000), Fin (- (7 / 20000)))],
          x_store = [Fin (1 / 1000), Fin (21 / 20000)],
          y_store = [(Fin (5999999 / 6000000), Fin (- (1 / 3000))),
                   (Fin (799999853 / 800000000), Fin (- (7 / 20000)))],
          str_ptr = 1, i_cur = 1 \<rparr>)
   \<and> integrate 0 (1 / 1000) 2 0 (- 1) =
       Inr ([Fin (1 / 1000), Fin (21 / 20000)],
            [(Fin (5999999 / 6000000), Fin (- (1 / 3000))),
             (Fin (799999853 / 800000000), Fin (- (7 / 20000)))])
   \<and> center (Fin (1 / 1000)) 0 = (Fin (5999999 / 6000000), Fin (- (1 / 3000)))
   \<and> Fin (21 / 20000) = fadd (Fin (1 / 1000)) (Fin (1 / 20000))
   \<and> (Fin (799999853 / 800000000), Fin (- (7 / 20000))) =
       rk4 (Fin (1 / 1000)) (Fin (1 / 20000)) (Fin (5999999 / 6000000), Fin (- (1 / 3000))) LE 0"
  using no_validation [where h = "1 / 1000" and prec = 0 and dx_store = "- 1" and n = 0
      and nstps = 2 and b = False and s =
      "\<lparr> x_arr = [Fin (1 / 1000), Fin (21 / 20000)],
          y_arr = [(Fin (5999999 / 6000000), Fin (- (1 / 3000))),
                   (Fin (799999853 / 800000000), Fin (- (7 / 20000)))],
          x_store = [Fin (1 / 1000), Fin (21 / 20000)],
          y_store = [(Fin (5999999 / 6000000), Fin (- (1 / 3000))),
                   (Fin (799999853 / 800000000), Fin (- (7 / 20000)))],
          str_ptr = 1, i_cur = 1 \<rparr>"]
  by (simp add: ordinary_def integrate_def run_c step_b rk4_b center_b vec_eval)

lemma integrate_a:
  "integrate 0 (12 / 5) 2 (1 / 100) (1 / 10) =
     Inr ([Fin (12 / 5), Fin (981 / 400)],
          [(Fin (1 / 25), Fin (- (4 / 5))), (Fin (36479 / 960000), Fin (- (961 / 1200)))])"
  by (simp add: integrate_def run_a)

lemma integrate_d:
  "integrate 0 (1 / 1000) 2 (1 / 1000000) (1 / 100000) =
     Inr ([Fin (1 / 1000), Fin (21 / 20000)],
          [(Fin (5999999 / 6000000), Fin (- (1 / 3000))),
           (Fin (799999853 / 800000000), Fin (- (7 / 20000)))])"
  by (simp add: integrate_def run_d)

text \<open>
  From the offset \<open>12/5\<close> with \<open>prec = 1/100\<close> the first step, \<open>1/400\<close>, is below \<open>prec\<close>; the
  terminal point is stored at \<open>981/400\<close>, less than \<open>dx_store = 1/10\<close> above the first one.
\<close>

theorem terminal_spacing_cex:
  "integrate 0 (12 / 5) 2 (1 / 100) (1 / 10) =
     Inr ([Fin (12 / 5), Fin (981 / 400)],
          [(Fin (1 / 25), Fin (- (4 / 5))), (Fin (36479 / 960000), Fin (- (961 / 1200)))])
   \<and> \<not> flt (fadd (Fin (12 / 5)) (Fin (1 / 10))) (Fin (981 / 400))"
  by (simp add: integrate_a)

text \<open>
  Claim C10, as amended. For every call that returns, any two consecutive samples of the
  returned \<open>\<xi>\<close> sequence other than the terminal one are separated by more than \<open>dx_store\<close>:
  the later one exceeds the earlier one plus \<open>dx_store\<close>. The terminal point of a run ended
  by the step-size test is stored without any spacing test.
\<close>

theorem stored_spacing:
  assumes "integrate n h nstps prec dx_store = Inr (xs, ys)"
  shows "\<forall>j. j + 1 < length xs - (if fst (run n h (nat nstps) prec dx_store) then 1 else 0) \<longrightarrow>
           flt (fadd (xs ! j) (Fin dx_store)) (xs ! (j + 1))"
proof -
  obtain b s where r: "run n h (nat nstps) prec dx_store = (b, s)"
    by (cases "run n h (nat nstps) prec dx_store")
  have N: "0 < nat nstps" using integrate_Inr(1) [OF assms] by simp
  have xs: "xs = take (str_ptr s + 1) (x_store s)"
    using integrate_Inr(2) [OF assms] r by simp
  note bas = run_basic [OF r N]
  have len: "length xs = str_ptr s + 1" using xs bas by simp
  have nth: "xs ! j = x_store s ! j" if "j \<le> str_ptr s" for j using xs that by simp
  have "flt (fadd (xs ! j) (Fin dx_store)) (xs ! (j + 1))"
    if "j + 1 < length xs - (if b then 1 else 0)" for j
  proof -
    have "j < str_ptr s - (if b then 1 else 0)" using that len by (auto split: if_splits)
    then have "flt (fadd (x_store s ! j) (Fin dx_store)) (x_store s ! (j + 1))"
      using run_store(2) [OF r N] by (simp add: spaced_def)
    then show ?thesis using nth that len by (auto split: if_splits)
  qed
  then show ?thesis using r by simp
qed

theorem stored_spacing_witness:
  "integrate 0 (1 / 1000) 2 (1 / 1000000) (1 / 100000) =
     Inr ([Fin (1 / 1000), Fin (21 / 20000)],
          [(Fin (5999999 / 6000000), Fin (- (1 / 3000))),
           (Fin (799999853 / 800000000), Fin (- (7 / 20000)))])
   \<and> fst (run 0 (1 / 1000) (nat 2) (1 / 1000000) (1 / 100000)) = False
   \<and> (0::nat) + 1 < length [Fin (1 / 1000), Fin (21 / 20000)] - 0
   \<and> flt (fadd (Fin (1 / 1000)) (Fin (1 / 100000))) (Fin (21 / 20000))"
  using stored_spacing [OF integrate_d] by (simp add: integrate_d run_d)

end
